theory Spec2Isabelle
  imports Main
begin

section \<open>The session client of frontend/src/App.js\<close>

text \<open>
  The component \<open>App\<close> is a React function component: its state lives in
  \<open>useState\<close> cells and \<open>useRef\<close> cells, and everything it does happens in
  callbacks that the browser dispatches one at a time (clicks, timer callbacks, promise
  continuations, effects). The model is a record of that state together with the part of
  the browser the callbacks talk to (live interval handles, pending timeouts, requests in
  flight, the audio element, the sockets, the console), and one HOL function per callback
  of the source, under the source's name. Time (\<open>Date.now()\<close>, \<open>new Date()\<close>) and the
  random source are parameters of the callbacks that read them.
\<close>

subsection \<open>Catalogues\<close>

text \<open>Of a catalogue entry only the fields that the callbacks read are kept
  (\<open>id\<close>, \<open>name\<close>, \<open>title\<close>; \<open>id\<close>, \<open>name\<close>, \<open>category\<close>).\<close>

record persona =
  p_id :: string
  p_name :: string
  p_title :: string

definition VOICE_PERSONAS :: "persona list" where
  "VOICE_PERSONAS =
    [\<lparr>p_id = ''calm_female'', p_name = ''Dr. Serena'', p_title = ''Mindful Therapist''\<rparr>,
     \<lparr>p_id = ''wise_male'', p_name = ''Dr. Marcus'', p_title = ''Wise Counselor''\<rparr>,
     \<lparr>p_id = ''gentle_guide'', p_name = ''Dr. Priya'', p_title = ''Gentle Guide''\<rparr>,
     \<lparr>p_id = ''nature_spirit'', p_name = ''Dr. Forest'', p_title = ''Nature Therapist''\<rparr>,
     \<lparr>p_id = ''zen_master'', p_name = ''Dr. Zen'', p_title = ''Mindfulness Expert''\<rparr>]"

record sound =
  s_id :: string
  s_name :: string
  category :: string

definition MEDITATION_SOUNDS :: "sound list" where
  "MEDITATION_SOUNDS =
    [\<lparr>s_id = ''nature'', s_name = ''Forest Sounds'', category = ''forest''\<rparr>,
     \<lparr>s_id = ''water'', s_name = ''Ocean Waves'', category = ''ocean''\<rparr>,
     \<lparr>s_id = ''rain'', s_name = ''Gentle Rain'', category = ''rainfall''\<rparr>]"

datatype app_state =
  VOICE_SELECTION | TIMER_SETUP | ACTIVE_SESSION | MEDITATION_SELECTION | MEDITATION_ACTIVE

subsection \<open>Messages, requests, timers\<close>

record message =
  m_type :: string
  content :: string
  timestamp :: int

text \<open>The body of a successful HTTP response, with the three fields the source reads:
  \<open>data.audio_data\<close>, \<open>data.id\<close> and \<open>data.tracks\<close> (a track is kept as its
  \<open>preview_url\<close>).\<close>

record http_data =
  audio_data :: "string option"
  d_id :: string
  tracks :: "string list"

datatype response = Rejected | Fulfilled http_data

text \<open>An \<open>async\<close> function is suspended at its \<open>await\<close>. What is suspended is recorded
  with the variables its continuation has captured.\<close>

datatype pending =
    AwaitIntro string string
      \<comment> \<open>\<open>speakIntroduction\<close>: \<open>message\<close>, \<open>voice_persona\<close>\<close>
  | AwaitSession string int
      \<comment> \<open>\<open>startSession\<close>: \<open>voice_persona\<close>, the captured \<open>sessionMinutes\<close>\<close>
  | AwaitReply string string int
      \<comment> \<open>\<open>generateTherapistResponse\<close>: \<open>userInput\<close>, \<open>voice_persona\<close>, \<open>sessionMinutes\<close>\<close>
  | AwaitTracks sound
      \<comment> \<open>\<open>startMeditation\<close>: \<open>sound\<close>\<close>

text \<open>The three callbacks handed to \<open>setTimeout\<close>: the greeting of \<open>startSession\<close>
  (1000 ms; it calls \<open>generateTherapistResponse\<close> of the render that started the
  session), the suggestion of \<open>generateTherapistResponse\<close> (3000 ms) and the reset of
  \<open>endSession\<close> (3000 ms).\<close>

datatype callback = GreetingCb string int | SuggestCb | ResetCb

record audio_el =
  src :: "string option"
  playing :: bool

record socket =
  ws_session :: string
  ws_open :: bool

record ws_data =
  audio :: "string option"
  ws_type :: string

subsection \<open>The state\<close>

record app =
  currentState :: app_state
  selectedPersona :: nat
  sessionMinutes :: int
  currentSession :: "http_data option"
  messages :: "message list"
  remainingTime :: int
  selectedSound :: "sound option"
  musicTracks :: "string list"
  isMeditating :: bool
  lastCheckIn :: "int option"
  audioRef :: "audio_el option"
  wsRef :: "nat option"
  sockets :: "socket list"
  timerRef :: "nat option"
  transcript :: string
  listening :: bool
  intervals :: "nat list"
  nextHandle :: nat
  timeouts :: "(int \<times> callback) list"
  inflight :: "pending list"
  console :: "string list"

text \<open>\<open>sockets\<close> holds every socket the component has created, in the order of
  creation; \<open>wsRef\<close> is a reference to one of them, as an index. \<open>intervals\<close> holds
  the handles of the live intervals that \<open>startTimer\<close> created; \<open>timerRef\<close> holds one
  handle. The first render: the initial values of the \<open>useState\<close> and \<open>useRef\<close>
  cells; the hidden audio element is mounted, nothing is scheduled. Timer handles are
  positive integers.\<close>

definition initial :: app where
  "initial = \<lparr>currentState = VOICE_SELECTION, selectedPersona = 0, sessionMinutes = 15,
     currentSession = None, messages = [], remainingTime = 0, selectedSound = None,
     musicTracks = [], isMeditating = False, lastCheckIn = None,
     audioRef = Some \<lparr>src = None, playing = False\<rparr>, wsRef = None, sockets = [],
     timerRef = None, transcript = [], listening = False, intervals = [], nextHandle = 1,
     timeouts = [], inflight = [], console = []\<rparr>"

subsection \<open>Audio playback\<close>

text \<open>\<open>atob\<close> throws on input that is not base64 (the forgiving decoder of the
  platform: white space is skipped, one or two trailing \<open>=\<close> are dropped from a length
  that is a multiple of four, a remaining length of 1 modulo 4 or a character outside the
  alphabet fails).\<close>

definition b64_space :: "char \<Rightarrow> bool" where
  "b64_space c = (c \<in> set [CHR 0x09, CHR 0x0A, CHR 0x0C, CHR 0x0D, CHR 0x20])"

definition b64_char :: "char \<Rightarrow> bool" where
  "b64_char c =
     (c \<in> set ''ABCDEFGHIJKLMNOPQRSTUVWXYZabcdefghijklmnopqrstuvwxyz0123456789+/'')"

definition strip_pad :: "string \<Rightarrow> string" where
  "strip_pad xs =
     (if length xs mod 4 = 0 then
        (if 2 \<le> length xs \<and> drop (length xs - 2) xs = ''=='' then take (length xs - 2) xs
         else if 1 \<le> length xs \<and> drop (length xs - 1) xs = ''='' then take (length xs - 1) xs
         else xs)
      else xs)"

definition atob_ok :: "string \<Rightarrow> bool" where
  "atob_ok base64Audio =
     (let d = strip_pad (filter (\<lambda>c. \<not> b64_space c) base64Audio)
      in length d mod 4 \<noteq> 1 \<and> list_all b64_char d)"

text \<open>\<open>playAudioFromBase64\<close>: decode, make an object URL, and if the element is
  mounted assign its \<open>src\<close> and call \<open>play()\<close>. Assigning \<open>src\<close> makes the element load
  the new clip in place of whatever it held. The element's \<open>src\<close> is modelled by the
  payload the URL was made from.\<close>

definition playAudioFromBase64 :: "string \<Rightarrow> app \<Rightarrow> app" where
  "playAudioFromBase64 base64Audio s =
     (if \<not> atob_ok base64Audio then s\<lparr>console := console s @ [''Error playing audio:'']\<rparr>
      else case audioRef s of
             None \<Rightarrow> s
           | Some a \<Rightarrow> s\<lparr>audioRef := Some (a\<lparr>src := Some base64Audio, playing := True\<rparr>)\<rparr>)"

text \<open>The element's \<open>ended\<close> event: the clip it holds has played to its end.\<close>

definition audio_ended :: "app \<Rightarrow> app" where
  "audio_ended s =
     (case audioRef s of None \<Rightarrow> s | Some a \<Rightarrow> s\<lparr>audioRef := Some (a\<lparr>playing := False\<rparr>)\<rparr>)"

subsection \<open>Persona navigation\<close>

text \<open>\<open>speakIntroduction\<close> reads \<open>selectedPersona\<close> of the render whose closure it
  belongs to, builds the sentence and suspends at the request.\<close>

definition intro_message :: "persona \<Rightarrow> string" where
  "intro_message p = ''Hi, I'm '' @ p_name p @ '', your '' @ p_title p @
     ''. We can start our conversation if you think I can help you out!''"

definition speakIntroduction :: "app \<Rightarrow> app" where
  "speakIntroduction s =
     (if selectedPersona s < length VOICE_PERSONAS then
        (let p = VOICE_PERSONAS ! selectedPersona s
         in s\<lparr>inflight := inflight s @ [AwaitIntro (intro_message p) (p_id p)]\<rparr>)
      else s)"

definition speakIntroduction_resume :: "response \<Rightarrow> app \<Rightarrow> app" where
  "speakIntroduction_resume r s =
     (case r of
        Rejected \<Rightarrow> s\<lparr>console := console s @ [''Failed to generate speech:'']\<rparr>
      | Fulfilled d \<Rightarrow>
          (case audio_data d of
             None \<Rightarrow> s
           | Some a \<Rightarrow> if a = [] then s else playAudioFromBase64 a s))"

text \<open>The two updaters that \<open>navigatePersona\<close> hands to \<open>setSelectedPersona\<close>.\<close>

definition persona_step :: "string \<Rightarrow> nat \<Rightarrow> nat" where
  "persona_step direction prev =
     (if direction = ''left''
      then (if prev = 0 then length VOICE_PERSONAS - 1 else prev - 1)
      else (prev + 1) mod length VOICE_PERSONAS)"

text \<open>\<open>navigatePersona\<close>: the state update is queued and \<open>speakIntroduction()\<close> is called
  in the same closure, so it sees the index of the current render; the update takes
  effect with the next render.\<close>

definition navigatePersona :: "string \<Rightarrow> app \<Rightarrow> app" where
  "navigatePersona direction s =
     (speakIntroduction s)\<lparr>selectedPersona := persona_step direction (selectedPersona s)\<rparr>"

subsection \<open>Timer setup\<close>

definition adjustTimer :: "int \<Rightarrow> app \<Rightarrow> app" where
  "adjustTimer change s =
     s\<lparr>sessionMinutes := (let newValue = sessionMinutes s + change in max 5 (min 60 newValue))\<rparr>"

subsection \<open>Ending a session\<close>

definition closing_text :: string where
  "closing_text = ''Thank you for sharing this time with me. Remember, you have the strength within you. Take care, and I hope you feel more centered now.''"

text \<open>\<open>endSession\<close>: clear the interval that \<open>timerRef\<close> names, close the socket
  that \<open>wsRef\<close> names, stop the recogniser, append the closing message, and schedule
  the reset 3000 ms later. It touches no \<open>useState\<close> cell other than \<open>messages\<close>.\<close>

definition close_socket :: "nat \<Rightarrow> socket list \<Rightarrow> socket list" where
  "close_socket i ws = (if i < length ws then ws[i := (ws ! i)\<lparr>ws_open := False\<rparr>] else ws)"

definition endSession :: "int \<Rightarrow> app \<Rightarrow> app" where
  "endSession now s =
     (let s1 = (case timerRef s of
                  None \<Rightarrow> s
                | Some h \<Rightarrow> if h = 0 then s else s\<lparr>intervals := removeAll h (intervals s)\<rparr>);
          s2 = (case wsRef s1 of
                  None \<Rightarrow> s1
                | Some i \<Rightarrow> s1\<lparr>sockets := close_socket i (sockets s1)\<rparr>);
          s3 = s2\<lparr>listening := False\<rparr>;
          s4 = s3\<lparr>messages := messages s3 @
                  [\<lparr>m_type = ''therapist'', content = closing_text, timestamp = now\<rparr>]\<rparr>
      in s4\<lparr>timeouts := timeouts s4 @ [(now + 3000, ResetCb)]\<rparr>)"

text \<open>The callback of that timeout.\<close>

definition reset :: "app \<Rightarrow> app" where
  "reset s = s\<lparr>currentState := VOICE_SELECTION, selectedPersona := 0, sessionMinutes := 15,
     currentSession := None, messages := [], remainingTime := 0, selectedSound := None,
     isMeditating := False, lastCheckIn := None\<rparr>"

subsection \<open>The countdown\<close>

text \<open>\<open>startTimer\<close> creates a new 1000 ms interval and stores its handle in
  \<open>timerRef\<close>, over whatever handle was there. The interval's callback hands
  \<open>setRemainingTime\<close> an updater and does nothing else. React does not evaluate an
  updater when it is handed over but when it next renders the component.
  \<open>countdown_updater\<close> is that updater: it calls \<open>endSession()\<close> and returns 0 when
  the previous value is at most 1.\<close>

definition startTimer :: "app \<Rightarrow> app" where
  "startTimer s = s\<lparr>timerRef := Some (nextHandle s), intervals := intervals s @ [nextHandle s],
     nextHandle := nextHandle s + 1\<rparr>"

definition countdown_updater :: "int \<Rightarrow> app \<Rightarrow> app" where
  "countdown_updater now s =
     (if remainingTime s \<le> 1 then (endSession now s)\<lparr>remainingTime := 0\<rparr>
      else s\<lparr>remainingTime := remainingTime s - 1\<rparr>)"

subsection \<open>The therapist's replies\<close>

definition responses :: "string list" where
  "responses =
    [''I hear you. That sounds like it's been weighing on you. Can you tell me more about how that makes you feel?'',
     ''Thank you for sharing that with me. It takes courage to open up. What's been your biggest challenge lately?'',
     ''I can sense there's a lot going on for you right now. Sometimes it helps to just breathe and be present. Would you like to try some meditation?'',
     ''Your feelings are completely valid. How has this been affecting your daily life?'',
     ''I appreciate your honesty. It sounds like you're dealing with a lot. What usually helps you feel more centered?'']"

text \<open>\<open>String.prototype.includes\<close>: the needle occurs as a contiguous substring.\<close>

fun str_includes :: "string \<Rightarrow> string \<Rightarrow> bool" where
  "str_includes [] needle = (needle = [])"
| "str_includes (c # cs) needle =
     (take (length needle) (c # cs) = needle \<or> str_includes cs needle)"

text \<open>\<open>generateTherapistResponse\<close> suspends at the request to
  \<open>/api/generate-speech\<close>; the prompt it sends is made of \<open>sessionMinutes\<close> and
  \<open>userInput\<close>, the voice is that of \<open>selectedPersona\<close>, both as the calling render
  holds them.\<close>

definition generateTherapistResponse :: "string \<Rightarrow> string \<Rightarrow> int \<Rightarrow> app \<Rightarrow> app" where
  "generateTherapistResponse userInput voice minutes s =
     s\<lparr>inflight := inflight s @ [AwaitReply userInput voice minutes]\<rparr>"

text \<open>Its continuation. The response is not read: the reply is
  \<open>responses[Math.floor(Math.random() * responses.length)]\<close>, and \<open>rnd\<close> stands for
  that index, which \<open>Math.random()\<close> in \<open>[0, 1)\<close> keeps below 5. Whether the
  meditation menu is scheduled is read off the chosen reply. A rejected request skips
  everything after the \<open>await\<close> and logs to the console.\<close>

definition meditation_suggested :: "string \<Rightarrow> nat \<Rightarrow> bool" where
  "meditation_suggested userInput rnd =
     (rnd < length responses \<and> str_includes (responses ! rnd) ''meditation'')"

definition generateTherapistResponse_resume ::
    "string \<Rightarrow> response \<Rightarrow> nat \<Rightarrow> int \<Rightarrow> app \<Rightarrow> app" where
  "generateTherapistResponse_resume userInput r rnd now s =
     (case r of
        Rejected \<Rightarrow> s\<lparr>console := console s @ [''Failed to generate response:'']\<rparr>
      | Fulfilled d \<Rightarrow>
          if rnd < length responses then
            (let therapeuticResponse = responses ! rnd;
                 s1 = s\<lparr>messages := messages s @
                        [\<lparr>m_type = ''therapist'', content = therapeuticResponse,
                          timestamp = now\<rparr>]\<rparr>
             in if meditation_suggested userInput rnd
                then s1\<lparr>timeouts := timeouts s1 @ [(now + 3000, SuggestCb)]\<rparr>
                else s1)
          else s\<lparr>console := console s @ [''Failed to generate response:'']\<rparr>)"

subsection \<open>Starting a session\<close>

definition voice_of :: "app \<Rightarrow> string" where
  "voice_of s = p_id (VOICE_PERSONAS ! selectedPersona s)"

definition startSession :: "app \<Rightarrow> app" where
  "startSession s =
     (if selectedPersona s < length VOICE_PERSONAS
      then s\<lparr>inflight := inflight s @ [AwaitSession (voice_of s) (sessionMinutes s)]\<rparr>
      else s\<lparr>console := console s @ [''Failed to start session:'']\<rparr>)"

definition initializeWebSocket :: "string \<Rightarrow> app \<Rightarrow> app" where
  "initializeWebSocket sessionId s =
     s\<lparr>wsRef := Some (length (sockets s)),
       sockets := sockets s @ [\<lparr>ws_session = sessionId, ws_open = True\<rparr>]\<rparr>"

definition greeting :: string where
  "greeting = ''Hey, how's your day! Do you want to share anything with me?''"

text \<open>The continuation of \<open>startSession\<close>. A rejected request (a non-2xx answer or a
  network error makes \<open>axios.post\<close> throw) goes straight to the \<open>catch\<close>, which logs to
  the console. Otherwise, in the source's order: session, remaining seconds from the
  captured \<open>sessionMinutes\<close>, state, timer, socket, the greeting as the whole message
  log, the greeting's timeout, the recogniser.\<close>

definition startSession_resume :: "string \<Rightarrow> int \<Rightarrow> response \<Rightarrow> int \<Rightarrow> app \<Rightarrow> app" where
  "startSession_resume voice minutes r now s =
     (case r of
        Rejected \<Rightarrow> s\<lparr>console := console s @ [''Failed to start session:'']\<rparr>
      | Fulfilled d \<Rightarrow>
          (let s1 = s\<lparr>currentSession := Some d, remainingTime := minutes * 60,
                      currentState := ACTIVE_SESSION\<rparr>;
               s2 = startTimer s1;
               s3 = initializeWebSocket (d_id d) s2;
               s4 = s3\<lparr>messages := [\<lparr>m_type = ''therapist'', content = greeting,
                                        timestamp = now\<rparr>]\<rparr>;
               s5 = s4\<lparr>timeouts := timeouts s4 @ [(now + 1000, GreetingCb voice minutes)]\<rparr>
           in s5\<lparr>listening := True\<rparr>))"

definition handleWebSocketMessage :: "ws_data \<Rightarrow> app \<Rightarrow> app" where
  "handleWebSocketMessage data s =
     (let s1 = (case audio data of
                  None \<Rightarrow> s
                | Some a \<Rightarrow> if a = [] then s else playAudioFromBase64 a s)
      in if ws_type data = ''meditation_suggestion''
         then s1\<lparr>currentState := MEDITATION_SELECTION\<rparr> else s1)"

subsection \<open>Meditation\<close>

text \<open>\<open>startMeditation\<close>: three state updates, then the \<open>try\<close> block suspends at the
  request for the tracks. In the continuation the tracks, the transition message and
  the check-in clock are set, in this order, after the \<open>await\<close>; a rejected request
  goes to the \<open>catch\<close>.\<close>

definition startMeditation :: "sound \<Rightarrow> app \<Rightarrow> app" where
  "startMeditation sound s =
     (let s1 = s\<lparr>selectedSound := Some sound, isMeditating := True,
                  currentState := MEDITATION_ACTIVE\<rparr>
      in s1\<lparr>inflight := inflight s1 @ [AwaitTracks sound]\<rparr>)"

definition transition_text :: "sound \<Rightarrow> string" where
  "transition_text sound = ''Perfect choice. Let's begin with '' @ s_name sound @
     ''. Just focus on your breathing and let the sounds wash over you.''"

definition startMeditation_resume :: "sound \<Rightarrow> response \<Rightarrow> int \<Rightarrow> app \<Rightarrow> app" where
  "startMeditation_resume sound r now s =
     (case r of
        Rejected \<Rightarrow> s\<lparr>console := console s @ [''Failed to load meditation music:'']\<rparr>
      | Fulfilled d \<Rightarrow>
          s\<lparr>musicTracks := tracks d,
            messages := messages s @
              [\<lparr>m_type = ''therapist'', content = transition_text sound, timestamp = now\<rparr>],
            lastCheckIn := Some now\<rparr>)"

text \<open>What the render of \<open>MEDITATION_ACTIVE\<close> plays: an audio element with
  \<open>autoPlay\<close> and \<open>loop\<close> on the first track, if there is one and it has a
  \<open>preview_url\<close>.\<close>

definition ambient_audio :: "app \<Rightarrow> string option" where
  "ambient_audio s =
     (if currentState s = MEDITATION_ACTIVE
      then (case musicTracks s of [] \<Rightarrow> None | u # us \<Rightarrow> if u = [] then None else Some u)
      else None)"

text \<open>The check-in effect has the dependencies \<open>[isMeditating, lastCheckIn]\<close>: after
  every render in which one of them changed, the previous interval is cleared by the
  effect's cleanup and, if \<open>isMeditating && lastCheckIn\<close> holds, a new 1000 ms interval
  is created whose callback has captured that \<open>lastCheckIn\<close>. So at every moment of
  the event loop an interval is armed exactly when the condition holds of the state, and
  its captured value is the state's.\<close>

definition checkin_armed :: "app \<Rightarrow> bool" where
  "checkin_armed s =
     (isMeditating s \<and> (case lastCheckIn s of None \<Rightarrow> False | Some l \<Rightarrow> l \<noteq> 0))"

definition checkin_text :: string where
  "checkin_text = ''How are you feeling now? Are you finding some peace in this moment?''"

subsection \<open>Interval callbacks and the render after them\<close>

text \<open>Interval callbacks that are due together run one after the other, and React
  renders once after them. Until it renders, a state update waits in the queue of its
  \<open>useState\<close> cell, and every callback sees the state of the last render. The two
  interval callbacks queue updates on three cells: an appended message on \<open>messages\<close>
  and the new clock on \<open>lastCheckIn\<close> when a check-in is due, and a copy of the
  countdown's updater on \<open>remainingTime\<close>.\<close>

datatype tick = Countdown nat | CheckIn

record pending_updates =
  appended :: "message list"
  updaters :: nat
  clock :: "int option"

definition no_updates :: pending_updates where
  "no_updates = \<lparr>appended = [], updaters = 0, clock = None\<rparr>"

definition countdown_callback :: "pending_updates \<Rightarrow> pending_updates" where
  "countdown_callback q = q\<lparr>updaters := updaters q + 1\<rparr>"

text \<open>The check-in callback, with the \<open>lastCheckIn\<close> its closure holds.\<close>

definition checkin_callback :: "int \<Rightarrow> int \<Rightarrow> pending_updates \<Rightarrow> pending_updates" where
  "checkin_callback l now q =
     (if now - l \<ge> 5 * 60 * 1000
      then q\<lparr>appended := appended q @
               [\<lparr>m_type = ''therapist'', content = checkin_text, timestamp = now\<rparr>],
             clock := Some now\<rparr>
      else q)"

text \<open>A callback runs only if its interval is live: the countdown's if its handle has
  not been cleared, the check-in's if the last render armed it.\<close>

definition tick_callback :: "app \<Rightarrow> int \<Rightarrow> tick \<Rightarrow> pending_updates \<Rightarrow> pending_updates" where
  "tick_callback s now k q =
     (case k of
        Countdown h \<Rightarrow> if h \<in> set (intervals s) then countdown_callback q else q
      | CheckIn \<Rightarrow>
          (case lastCheckIn s of
             None \<Rightarrow> q
           | Some l \<Rightarrow> if checkin_armed s then checkin_callback l now q else q))"

text \<open>The render takes the cells in the order of their \<open>useState\<close> calls: \<open>messages\<close>,
  then \<open>remainingTime\<close>, then \<open>lastCheckIn\<close>. When an updater calls \<open>endSession()\<close>
  during the render, what \<open>endSession\<close> does to the browser happens at once, and its
  \<open>setMessages\<close> is applied on top of the messages this render has computed (React
  renders the component once more for it).\<close>

definition render_ticks :: "int \<Rightarrow> pending_updates \<Rightarrow> app \<Rightarrow> app" where
  "render_ticks now q s =
     (let s1 = s\<lparr>messages := messages s @ appended q\<rparr>;
          s2 = (countdown_updater now ^^ updaters q) s1
      in case clock q of None \<Rightarrow> s2 | Some c \<Rightarrow> s2\<lparr>lastCheckIn := Some c\<rparr>)"

definition due :: "int \<Rightarrow> tick list \<Rightarrow> app \<Rightarrow> app" where
  "due now ks s = render_ticks now (fold (tick_callback s now) ks no_updates) s"

subsection \<open>User turns\<close>

text \<open>The transcript effect has the dependencies \<open>[transcript, currentState,
  resetTranscript]\<close>; it runs after a render that changed one of them and does something
  when the transcript is non-empty in \<open>ACTIVE_SESSION\<close>, after which the transcript is
  empty. Running it after every event is the same.\<close>

definition transcript_effect :: "int \<Rightarrow> app \<Rightarrow> app" where
  "transcript_effect now s =
     (if transcript s \<noteq> [] \<and> currentState s = ACTIVE_SESSION then
        (let s1 = s\<lparr>messages := messages s @
                      [\<lparr>m_type = ''user'', content = transcript s, timestamp = now\<rparr>]\<rparr>;
             s2 = generateTherapistResponse (transcript s) (voice_of s) (sessionMinutes s) s1
         in s2\<lparr>transcript := []\<rparr>)
      else s)"

subsection \<open>The event loop\<close>

text \<open>What the browser can dispatch to the component. A click reaches its handler only
  while the button is rendered, which depends on \<open>currentState\<close>; \<open>Settle k r rnd\<close>
  settles the \<open>k\<close>-th request in flight with \<open>r\<close> (\<open>rnd\<close> is what the random
  source gives the continuation, if it asks); \<open>CountdownTick h\<close> is the interval with
  handle \<open>h\<close> firing and \<open>CheckInTick\<close> the check-in interval firing, each followed
  by a render of its own; \<open>Due ks\<close> is the interval callbacks \<open>ks\<close> running in this
  order with one render after them; \<open>TimeoutFire k\<close> is the \<open>k\<close>-th pending timeout
  firing, not before it is due; \<open>Speech t\<close> is the hook's \<open>transcript\<close> changing to
  \<open>t\<close>; \<open>SocketMessage i d\<close> is the \<open>i\<close>-th socket receiving \<open>d\<close>, which it
  does while it is open, whether \<open>wsRef\<close> still refers to it or not.\<close>

datatype event =
    ClickLeft | ClickRight | ClickPersona | ClickMinus | ClickPlus | ClickStart
  | ClickSound nat | ClickSkip | ClickReturn | ClickEnd
  | Settle nat response nat
  | CountdownTick nat
  | CheckInTick
  | Due "tick list"
  | TimeoutFire nat
  | Speech string
  | SocketMessage nat ws_data
  | AudioEnded

definition in_session :: "app \<Rightarrow> bool" where
  "in_session s = (currentState s = ACTIVE_SESSION \<or> currentState s = MEDITATION_SELECTION
     \<or> currentState s = MEDITATION_ACTIVE)"

definition remove_nth :: "nat \<Rightarrow> 'a list \<Rightarrow> 'a list" where
  "remove_nth k xs = take k xs @ drop (Suc k) xs"

definition resume :: "pending \<Rightarrow> response \<Rightarrow> nat \<Rightarrow> int \<Rightarrow> app \<Rightarrow> app" where
  "resume p r rnd now s =
     (case p of
        AwaitIntro msg voice \<Rightarrow> speakIntroduction_resume r s
      | AwaitSession voice minutes \<Rightarrow> startSession_resume voice minutes r now s
      | AwaitReply userInput voice minutes \<Rightarrow>
          generateTherapistResponse_resume userInput r rnd now s
      | AwaitTracks sound \<Rightarrow> startMeditation_resume sound r now s)"

definition fire :: "callback \<Rightarrow> app \<Rightarrow> app" where
  "fire c s =
     (case c of
        GreetingCb voice minutes \<Rightarrow> generateTherapistResponse greeting voice minutes s
      | SuggestCb \<Rightarrow> s\<lparr>currentState := MEDITATION_SELECTION\<rparr>
      | ResetCb \<Rightarrow> reset s)"

definition handle :: "int \<Rightarrow> event \<Rightarrow> app \<Rightarrow> app" where
  "handle now e s =
     (case e of
        ClickLeft \<Rightarrow> if currentState s = VOICE_SELECTION then navigatePersona ''left'' s else s
      | ClickRight \<Rightarrow> if currentState s = VOICE_SELECTION then navigatePersona ''right'' s else s
      | ClickPersona \<Rightarrow>
          if currentState s = VOICE_SELECTION then s\<lparr>currentState := TIMER_SETUP\<rparr> else s
      | ClickMinus \<Rightarrow> if currentState s = TIMER_SETUP then adjustTimer (- 5) s else s
      | ClickPlus \<Rightarrow> if currentState s = TIMER_SETUP then adjustTimer 5 s else s
      | ClickStart \<Rightarrow> if currentState s = TIMER_SETUP then startSession s else s
      | ClickSound k \<Rightarrow>
          if currentState s = MEDITATION_SELECTION \<and> k < length MEDITATION_SOUNDS
          then startMeditation (MEDITATION_SOUNDS ! k) s else s
      | ClickSkip \<Rightarrow>
          if currentState s = MEDITATION_SELECTION then s\<lparr>currentState := ACTIVE_SESSION\<rparr>
          else s
      | ClickReturn \<Rightarrow>
          if currentState s = MEDITATION_ACTIVE then s\<lparr>currentState := ACTIVE_SESSION\<rparr>
          else s
      | ClickEnd \<Rightarrow> if in_session s then endSession now s else s
      | Settle k r rnd \<Rightarrow>
          if k < length (inflight s)
          then resume (inflight s ! k) r rnd now (s\<lparr>inflight := remove_nth k (inflight s)\<rparr>)
          else s
      | CountdownTick h \<Rightarrow> due now [Countdown h] s
      | CheckInTick \<Rightarrow> due now [CheckIn] s
      | Due ks \<Rightarrow> due now ks s
      | TimeoutFire k \<Rightarrow>
          if k < length (timeouts s) \<and> fst (timeouts s ! k) \<le> now
          then fire (snd (timeouts s ! k)) (s\<lparr>timeouts := remove_nth k (timeouts s)\<rparr>)
          else s
      | Speech t \<Rightarrow> s\<lparr>transcript := t\<rparr>
      | SocketMessage i d \<Rightarrow>
          if i < length (sockets s) \<and> ws_open (sockets s ! i)
          then handleWebSocketMessage d s else s
      | AudioEnded \<Rightarrow> audio_ended s)"

text \<open>One turn of the event loop: the handler, then the render and its effects.\<close>

definition step :: "int \<Rightarrow> event \<Rightarrow> app \<Rightarrow> app" where
  "step now e s = transcript_effect now (handle now e s)"

fun run :: "(int \<times> event) list \<Rightarrow> app \<Rightarrow> app" where
  "run [] s = s"
| "run ((now, e) # es) s = run es (step now e s)"

subsection \<open>Scenarios\<close>

text \<open>Concrete runs from the first render, used below to exhibit behaviour. Every timer
  callback that falls into a run's time span is part of it: a countdown ticks once per
  second from the moment its session was created, the check-in interval once per second
  while it is armed.\<close>

definition demo_data :: http_data where
  "demo_data = \<lparr>audio_data = None, d_id = ''session-1'', tracks = [''forest.mp3'']\<rparr>"

definition second_data :: http_data where
  "second_data = \<lparr>audio_data = None, d_id = ''session-2'', tracks = []\<rparr>"

definition suggestion :: ws_data where
  "suggestion = \<lparr>audio = None, ws_type = ''meditation_suggestion''\<rparr>"

definition second_marks :: "int \<Rightarrow> nat \<Rightarrow> int list" where
  "second_marks t0 n = map (\<lambda>i. t0 + 1000 * (int i + 1)) [0..<n]"

definition ticks_at :: "nat \<Rightarrow> int list \<Rightarrow> (int \<times> event) list" where
  "ticks_at h ts = map (\<lambda>t. (t, CountdownTick h)) ts"

text \<open>A countdown and the check-in interval out of phase (a render after each
  callback), a countdown and the check-in interval in phase (due together), and two
  countdowns 50 ms apart.\<close>

definition both_ticks :: "nat \<Rightarrow> int \<Rightarrow> int \<Rightarrow> nat \<Rightarrow> (int \<times> event) list" where
  "both_ticks h t0 t1 n =
     concat (map (\<lambda>i. [(t0 + 1000 * int i, CountdownTick h),
                         (t1 + 1000 * int i, CheckInTick)]) [0..<n])"

definition due_ticks :: "nat \<Rightarrow> int \<Rightarrow> nat \<Rightarrow> (int \<times> event) list" where
  "due_ticks h t0 n = map (\<lambda>i. (t0 + 1000 * int i, Due [Countdown h, CheckIn])) [0..<n]"

definition two_countdowns :: "int \<Rightarrow> nat \<Rightarrow> (int \<times> event) list" where
  "two_countdowns t0 n =
     concat (map (\<lambda>i. [(t0 + 1000 * int i, CountdownTick 1),
                         (t0 + 50 + 1000 * int i, CountdownTick 2)]) [0..<n])"

text \<open>The persona is confirmed and \<open>Start Session\<close> is clicked; the request for the
  session is in flight.\<close>

definition to_timer_setup :: "(int \<times> event) list" where
  "to_timer_setup = [(1000, ClickPersona), (2000, ClickStart)]"

text \<open>The session is created at 3000; the greeting's timeout fires at 4000 and its
  request is answered at 4400 (reply 0, no suggestion).\<close>

definition to_conversation :: "(int \<times> event) list" where
  "to_conversation = to_timer_setup @
     [(3000, Settle 0 (Fulfilled demo_data) 0),
      (4000, CountdownTick 1), (4000, TimeoutFire 0), (4400, Settle 0 (Fulfilled demo_data) 0),
      (5000, CountdownTick 1)]"

text \<open>The server then pushes a meditation suggestion over the socket.\<close>

definition to_menu :: "(int \<times> event) list" where
  "to_menu = to_conversation @ [(5500, SocketMessage 0 suggestion), (6000, CountdownTick 1)]"

text \<open>A sound is chosen at 6500 and its tracks arrive at 7200, which sets the check-in
  clock. From then on the check-in interval ticks as well, 1000 ms after the render
  that set it up. The run ends after the ticks of 306000 and 306200: the first check-in
  will be due at 307200. The state it ends in is \<open>check_in_eve\<close>.\<close>

definition to_check_in_eve :: "(int \<times> event) list" where
  "to_check_in_eve = to_menu @
     [(6500, ClickSound 0), (7000, CountdownTick 1), (7200, Settle 0 (Fulfilled demo_data) 0)] @
     both_ticks 1 8000 8200 299"

definition check_in_eve :: app where
  "check_in_eve =
     \<lparr>currentState = MEDITATION_ACTIVE, selectedPersona = 0, sessionMinutes = 15,
      currentSession = Some demo_data,
      messages = [\<lparr>m_type = ''therapist'', content = greeting, timestamp = 3000\<rparr>,
                  \<lparr>m_type = ''therapist'', content = responses ! 0, timestamp = 4400\<rparr>,
                  \<lparr>m_type = ''therapist'', content = transition_text (MEDITATION_SOUNDS ! 0),
                    timestamp = 7200\<rparr>],
      remainingTime = 597, selectedSound = Some (MEDITATION_SOUNDS ! 0),
      musicTracks = [''forest.mp3''], isMeditating = True, lastCheckIn = Some 7200,
      audioRef = Some \<lparr>src = None, playing = False\<rparr>, wsRef = Some 0,
      sockets = [\<lparr>ws_session = ''session-1'', ws_open = True\<rparr>], timerRef = Some 1,
      transcript = [], listening = True, intervals = [1], nextHandle = 2, timeouts = [],
      inflight = [], console = []\<rparr>"

text \<open>A session of 10 minutes (one click on minus) created at 3000, so that its
  countdown expires with the tick of 603000. The server suggests meditation at 301500
  and the tracks of the chosen sound arrive at 303000, together with the countdown's
  tick, so that the check-in interval ticks in phase with the countdown and the first
  check-in is due at 603000 as well. The run ends after the ticks of 602000, in the
  state \<open>tie_eve\<close>.\<close>

definition to_tie :: "(int \<times> event) list" where
  "to_tie =
     [(1000, ClickPersona), (1500, ClickMinus), (2000, ClickStart),
      (3000, Settle 0 (Fulfilled demo_data) 0),
      (4000, CountdownTick 1), (4000, TimeoutFire 0), (4400, Settle 0 (Fulfilled demo_data) 0)] @
     ticks_at 1 (second_marks 4000 297) @
     [(301500, SocketMessage 0 suggestion),
      (302000, CountdownTick 1), (302500, ClickSound 1), (303000, CountdownTick 1),
      (303000, Settle 0 (Fulfilled demo_data) 0)] @
     due_ticks 1 304000 299"

definition tie_eve :: app where
  "tie_eve =
     \<lparr>currentState = MEDITATION_ACTIVE, selectedPersona = 0, sessionMinutes = 10,
      currentSession = Some demo_data,
      messages = [\<lparr>m_type = ''therapist'', content = greeting, timestamp = 3000\<rparr>,
                  \<lparr>m_type = ''therapist'', content = responses ! 0, timestamp = 4400\<rparr>,
                  \<lparr>m_type = ''therapist'', content = transition_text (MEDITATION_SOUNDS ! 1),
                    timestamp = 303000\<rparr>],
      remainingTime = 1, selectedSound = Some (MEDITATION_SOUNDS ! 1),
      musicTracks = [''forest.mp3''], isMeditating = True, lastCheckIn = Some 303000,
      audioRef = Some \<lparr>src = None, playing = False\<rparr>, wsRef = Some 0,
      sockets = [\<lparr>ws_session = ''session-1'', ws_open = True\<rparr>], timerRef = Some 1,
      transcript = [], listening = True, intervals = [1], nextHandle = 2, timeouts = [],
      inflight = [], console = []\<rparr>"

text \<open>A second meditation in one session: after the first (tracks at 7200) the user
  returns to the conversation at 8500, the server suggests meditation again at 9500,
  and the user chooses the second sound at 10500.\<close>

definition to_second_choice :: "(int \<times> event) list" where
  "to_second_choice = to_menu @
     [(6500, ClickSound 0), (7000, CountdownTick 1), (7200, Settle 0 (Fulfilled demo_data) 0),
      (8000, CountdownTick 1), (8200, CheckInTick), (8500, ClickReturn),
      (9000, CountdownTick 1), (9200, CheckInTick), (9500, SocketMessage 0 suggestion),
      (10000, CountdownTick 1), (10200, CheckInTick), (10500, ClickSound 1),
      (11000, CountdownTick 1), (11200, CheckInTick)]"

text \<open>The request for the tracks is rejected, in a first meditation and in a second
  one.\<close>

definition first_choice_failed :: "(int \<times> event) list" where
  "first_choice_failed = to_menu @
     [(6500, ClickSound 0), (7000, CountdownTick 1), (7200, Settle 0 Rejected 0)]"

definition second_choice_failed :: "(int \<times> event) list" where
  "second_choice_failed = to_second_choice @ [(11300, Settle 0 Rejected 0)]"

text \<open>\<open>Start Session\<close> is clicked twice, 100 ms apart, before the first request is
  answered; both requests are answered, at 3000 and at 3050. Each answer creates an
  interval (handles 1 and 2), a socket and a greeting timeout; both greetings' requests
  are answered with reply 0.\<close>

definition double_start :: "(int \<times> event) list" where
  "double_start =
     [(2000, ClickStart), (2100, ClickStart),
      (3000, Settle 0 (Fulfilled demo_data) 0), (3050, Settle 0 (Fulfilled second_data) 0),
      (4000, CountdownTick 1), (4000, TimeoutFire 0),
      (4050, CountdownTick 2), (4050, TimeoutFire 0),
      (4400, Settle 0 (Fulfilled demo_data) 0), (4450, Settle 0 (Fulfilled demo_data) 0)]"

text \<open>With the default 15 minutes, and \<open>endSession\<close> by the end button at 6500.\<close>

definition to_double_ended :: "(int \<times> event) list" where
  "to_double_ended = (1000, ClickPersona) # double_start @ two_countdowns 5000 2 @
     [(6500, ClickEnd)]"

text \<open>With 5 minutes (two clicks on minus), up to the ticks of 153000: both intervals
  take seconds off the same count, which is 1 after 150 s. The state the run ends in
  is \<open>double_eve\<close>.\<close>

definition to_double_eve :: "(int \<times> event) list" where
  "to_double_eve = [(1000, ClickPersona), (1500, ClickMinus), (1700, ClickMinus)] @
     double_start @ two_countdowns 5000 148 @ [(153000, CountdownTick 1)]"

definition double_eve :: app where
  "double_eve =
     \<lparr>currentState = ACTIVE_SESSION, selectedPersona = 0, sessionMinutes = 5,
      currentSession = Some second_data,
      messages = [\<lparr>m_type = ''therapist'', content = greeting, timestamp = 3050\<rparr>,
                  \<lparr>m_type = ''therapist'', content = responses ! 0, timestamp = 4400\<rparr>,
                  \<lparr>m_type = ''therapist'', content = responses ! 0, timestamp = 4450\<rparr>],
      remainingTime = 1, selectedSound = None, musicTracks = [], isMeditating = False,
      lastCheckIn = None, audioRef = Some \<lparr>src = None, playing = False\<rparr>, wsRef = Some 1,
      sockets = [\<lparr>ws_session = ''session-1'', ws_open = True\<rparr>,
                 \<lparr>ws_session = ''session-2'', ws_open = True\<rparr>],
      timerRef = Some 2, transcript = [], listening = True, intervals = [1, 2],
      nextHandle = 3, timeouts = [], inflight = [], console = []\<rparr>"

section \<open>Properties\<close>

subsection \<open>Persona navigation\<close>

lemma length_VOICE_PERSONAS: "length VOICE_PERSONAS = 5"
  by (simp add: VOICE_PERSONAS_def)

lemma persona_step_bound:
  "i < length VOICE_PERSONAS \<Longrightarrow> persona_step d i < length VOICE_PERSONAS"
  by (auto simp: persona_step_def length_VOICE_PERSONAS)

lemma persona_step_moves: "i < length VOICE_PERSONAS \<Longrightarrow> persona_step d i \<noteq> i"
  by (auto simp: persona_step_def length_VOICE_PERSONAS mod_Suc)

lemma selectedPersona_navigatePersona:
  "selectedPersona (navigatePersona d s) = persona_step d (selectedPersona s)"
  by (simp add: navigatePersona_def)

lemma navigate_fold_bound:
  "selectedPersona s < length VOICE_PERSONAS \<Longrightarrow>
   selectedPersona (fold navigatePersona ds s) < length VOICE_PERSONAS"
  by (induction ds arbitrary: s)
     (simp_all add: selectedPersona_navigatePersona persona_step_bound)



lemma names_in_introductions:
  "list_all (\<lambda>i. list_all (\<lambda>j.
      str_includes (intro_message (VOICE_PERSONAS ! i)) (p_name (VOICE_PERSONAS ! j)) = (i = j)
      \<and> (p_id (VOICE_PERSONAS ! i) = p_id (VOICE_PERSONAS ! j)) = (i = j)) [0..<5]) [0..<5]"
  by code_simp

lemma introduction_names:
  assumes "i < length VOICE_PERSONAS" and "j < length VOICE_PERSONAS"
  shows "str_includes (intro_message (VOICE_PERSONAS ! i)) (p_name (VOICE_PERSONAS ! j)) = (i = j)"
    and "(p_id (VOICE_PERSONAS ! i) = p_id (VOICE_PERSONAS ! j)) = (i = j)"
  using names_in_introductions assms
  by (simp_all add: list_all_iff length_VOICE_PERSONAS)

text \<open>
  Claim C10. The introduction that a \<open>navigatePersona\<close> call requests is built from
  the persona at the index before the call, while the index the call stores is a
  different one. The sentence contains the name of the persona that was selected and
  not the name of the persona now shown, and the voice asked for is the former's, not
  the latter's.
\<close>

theorem introduction_uses_previous_index:
  assumes "selectedPersona s < length VOICE_PERSONAS"
  shows "inflight (navigatePersona d s) = inflight s @
           [AwaitIntro (intro_message (VOICE_PERSONAS ! selectedPersona s))
                       (p_id (VOICE_PERSONAS ! selectedPersona s))]
    \<and> selectedPersona (navigatePersona d s) = persona_step d (selectedPersona s)
    \<and> persona_step d (selectedPersona s) \<noteq> selectedPersona s
    \<and> str_includes (intro_message (VOICE_PERSONAS ! selectedPersona s))
         (p_name (VOICE_PERSONAS ! selectedPersona s))
    \<and> \<not> str_includes (intro_message (VOICE_PERSONAS ! selectedPersona s))
         (p_name (VOICE_PERSONAS ! selectedPersona (navigatePersona d s)))
    \<and> p_id (VOICE_PERSONAS ! selectedPersona s) \<noteq>
         p_id (VOICE_PERSONAS ! selectedPersona (navigatePersona d s))"
proof -
  let ?i = "selectedPersona s"
  let ?j = "persona_step d ?i"
  have j: "?j < length VOICE_PERSONAS" by (rule persona_step_bound [OF assms])
  have ne: "?j \<noteq> ?i" by (rule persona_step_moves [OF assms])
  have sel: "selectedPersona (navigatePersona d s) = ?j"
    by (rule selectedPersona_navigatePersona)
  have req: "inflight (navigatePersona d s) = inflight s @
      [AwaitIntro (intro_message (VOICE_PERSONAS ! ?i)) (p_id (VOICE_PERSONAS ! ?i))]"
    using assms by (simp add: navigatePersona_def speakIntroduction_def Let_def)
  have own: "str_includes (intro_message (VOICE_PERSONAS ! ?i)) (p_name (VOICE_PERSONAS ! ?i))"
    using introduction_names(1) [OF assms assms] by simp
  have other: "\<not> str_includes (intro_message (VOICE_PERSONAS ! ?i)) (p_name (VOICE_PERSONAS ! ?j))"
    using introduction_names(1) [OF assms j] ne by simp
  have voice: "p_id (VOICE_PERSONAS ! ?i) \<noteq> p_id (VOICE_PERSONAS ! ?j)"
    using introduction_names(2) [OF assms j] ne by simp
  from req sel ne own other voice show ?thesis by simp
qed

theorem introduction_uses_previous_index_witness:
  "selectedPersona (fold navigatePersona [''right'', ''right'', ''right''] initial) = 3
   \<and> last (inflight (navigatePersona ''left''
        (fold navigatePersona [''right'', ''right'', ''right''] initial))) =
      AwaitIntro ''Hi, I'm Dr. Forest, your Nature Therapist. We can start our conversation if you think I can help you out!'' ''nature_spirit''
   \<and> p_name (VOICE_PERSONAS ! selectedPersona (navigatePersona ''left''
        (fold navigatePersona [''right'', ''right'', ''right''] initial))) = ''Dr. Priya''
   \<and> \<not> str_includes ''Hi, I'm Dr. Forest, your Nature Therapist. We can start our conversation if you think I can help you out!'' ''Dr. Priya''"
proof -
  let ?pre = "fold navigatePersona [''right'', ''right'', ''right''] initial"
  have i: "selectedPersona ?pre = 3"
    by (simp add: selectedPersona_navigatePersona persona_step_def length_VOICE_PERSONAS
          initial_def)
  have a: "selectedPersona ?pre < length VOICE_PERSONAS"
    by (rule navigate_fold_bound) (simp add: initial_def length_VOICE_PERSONAS)
  note t = introduction_uses_previous_index [OF a, of "''left''"]
  have m: "intro_message (VOICE_PERSONAS ! 3) = ''Hi, I'm Dr. Forest, your Nature Therapist. We can start our conversation if you think I can help you out!''"
    by (simp add: VOICE_PERSONAS_def intro_message_def)
  have v: "p_id (VOICE_PERSONAS ! 3) = ''nature_spirit''" by (simp add: VOICE_PERSONAS_def)
  have j: "selectedPersona (navigatePersona ''left'' ?pre) = 2"
    by (subst t [THEN conjunct2, THEN conjunct1], subst i) (simp add: persona_step_def)
  have n: "p_name (VOICE_PERSONAS ! 2) = ''Dr. Priya''" by (simp add: VOICE_PERSONAS_def)
  have r1: "last (inflight (navigatePersona ''left'' ?pre)) =
      AwaitIntro ''Hi, I'm Dr. Forest, your Nature Therapist. We can start our conversation if you think I can help you out!'' ''nature_spirit''"
    by (subst t [THEN conjunct1], subst i, subst i, subst m, subst v) simp
  have r2: "p_name (VOICE_PERSONAS ! selectedPersona (navigatePersona ''left'' ?pre)) = ''Dr. Priya''"
    by (subst j, subst n) simp
  have r3: "\<not> str_includes ''Hi, I'm Dr. Forest, your Nature Therapist. We can start our conversation if you think I can help you out!'' ''Dr. Priya''"
    using t [THEN conjunct2, THEN conjunct2, THEN conjunct2, THEN conjunct2, THEN conjunct1]
    unfolding j i m n by assumption
  from i r1 r2 r3 show ?thesis by blast
qed

subsection \<open>The meditation suggestion\<close>

lemma length_responses: "length responses = 5"
  by (simp add: responses_def)

lemma includes_0: "\<not> str_includes (responses ! 0) ''meditation''" by code_simp
lemma includes_1: "\<not> str_includes (responses ! Suc 0) ''meditation''" by code_simp
lemma includes_2: "str_includes (responses ! 2) ''meditation''" by code_simp
lemma includes_3: "\<not> str_includes (responses ! 3) ''meditation''" by code_simp
lemma includes_4: "\<not> str_includes (responses ! 4) ''meditation''" by code_simp

lemma meditation_suggested_iff: "meditation_suggested userInput rnd = (rnd = 2)"
proof (cases "rnd < 5")
  case False
  then show ?thesis by (simp add: meditation_suggested_def length_responses)
next
  case True
  then consider "rnd = 0" | "rnd = 1" | "rnd = 2" | "rnd = 3" | "rnd = 4" by linarith
  then show ?thesis
    by cases
      (simp_all add: meditation_suggested_def length_responses includes_0 includes_1
         includes_2 includes_3 includes_4)
qed

text \<open>
  Claim C8, as stated, fails: a turn full of stress words gets no recommendation when
  the random index is 0, so the text does not decide anything.
\<close>

theorem recommendation_counterexample:
  "\<not> meditation_suggested ''I am so stressed and anxious'' 0
   \<and> timeouts (run (to_conversation @ [(5500, Speech ''I am so stressed and anxious''),
        (6000, CountdownTick 1), (6200, Settle 0 (Fulfilled demo_data) 0)]) initial) = []
   \<and> currentState (run (to_conversation @ [(5500, Speech ''I am so stressed and anxious''),
        (6000, CountdownTick 1), (6200, Settle 0 (Fulfilled demo_data) 0)]) initial)
       = ACTIVE_SESSION"
  by code_simp

text \<open>
  Claim C8, amended. The recommendation is true exactly when the random index picks
  the third of the five canned replies (the only one containing \<open>meditation\<close>),
  whatever the user said; exactly then the move to the meditation menu is scheduled
  3000 ms later.
\<close>

theorem recommendation_by_reply_index:
  "meditation_suggested userInput rnd = (rnd = 2)
   \<and> timeouts (generateTherapistResponse_resume userInput (Fulfilled d) rnd now s) =
       (if rnd = 2 then timeouts s @ [(now + 3000, SuggestCb)] else timeouts s)"
  by (simp add: meditation_suggested_iff generateTherapistResponse_resume_def
        length_responses Let_def)

subsection \<open>Audio playback\<close>

lemma play_decodable:
  "audioRef s = Some a \<Longrightarrow> atob_ok b \<Longrightarrow>
   audioRef (playAudioFromBase64 b s) = Some \<lparr>src = Some b, playing = True\<rparr>"
  by (simp add: playAudioFromBase64_def)

lemma play_undecodable:
  "\<not> atob_ok b \<Longrightarrow> audioRef (playAudioFromBase64 b s) = audioRef s"
  by (simp add: playAudioFromBase64_def)

lemma fold_play:
  "audioRef s = Some a \<Longrightarrow>
   audioRef (fold playAudioFromBase64 bs s) =
     (if filter atob_ok bs = [] then audioRef s
      else Some \<lparr>src = Some (last (filter atob_ok bs)), playing = True\<rparr>)"
proof (induction bs arbitrary: s a rule: rev_induct)
  case Nil
  then show ?case by simp
next
  case (snoc b bs)
  from snoc.prems have "\<exists>a'. audioRef (fold playAudioFromBase64 bs s) = Some a'"
    using snoc.IH [OF snoc.prems] by (simp split: if_splits)
  then obtain a' where a': "audioRef (fold playAudioFromBase64 bs s) = Some a'" ..
  show ?case
  proof (cases "atob_ok b")
    case True
    then show ?thesis using play_decodable [OF a' True] by simp
  next
    case False
    then show ?thesis using play_undecodable [OF False] snoc.IH [OF snoc.prems] by simp
  qed
qed

lemma atob_QUJD: "atob_ok ''QUJD''" by code_simp
lemma atob_REVG: "atob_ok ''REVG''" by code_simp
lemma atob_star: "\<not> atob_ok ''*''" by code_simp

text \<open>
  Claim C6, as stated, fails: while the clip \<open>QUJD\<close> is sounding (no \<open>ended\<close> event
  has come), a request for \<open>REVG\<close> takes its place in the element at once.
\<close>

theorem playback_counterexample:
  "audioRef (playAudioFromBase64 ''QUJD'' initial) = Some \<lparr>src = Some ''QUJD'', playing = True\<rparr>
   \<and> audioRef (playAudioFromBase64 ''REVG'' (playAudioFromBase64 ''QUJD'' initial))
       = Some \<lparr>src = Some ''REVG'', playing = True\<rparr>"
  by code_simp

text \<open>
  Claim C6, amended. All clips go through the one audio element, so at most one plays
  at a time; after any sequence of requests the element plays the last request that
  decoded, which has replaced whatever was sounding (there is no pending slot), and
  requests that do not decode change nothing.
\<close>

theorem new_clip_replaces_current:
  assumes "audioRef s = Some a"
  shows "audioRef (fold playAudioFromBase64 bs s) =
     (if filter atob_ok bs = [] then audioRef s
      else Some \<lparr>src = Some (last (filter atob_ok bs)), playing = True\<rparr>)"
  using assms by (rule fold_play)

theorem new_clip_replaces_current_witness:
  "audioRef (fold playAudioFromBase64 [''QUJD'', ''REVG'', ''*''] initial)
     = Some \<lparr>src = Some ''REVG'', playing = True\<rparr>"
proof -
  have a: "audioRef initial = Some \<lparr>src = None, playing = False\<rparr>"
    by (simp add: initial_def)
  from new_clip_replaces_current [OF a, of "[''QUJD'', ''REVG'', ''*'']"]
  show ?thesis by (simp add: atob_QUJD atob_REVG atob_star)
qed

subsection \<open>A failed session creation\<close>

lemma handle_Settle:
  "k < length (inflight s) \<Longrightarrow>
   handle now (Settle k r rnd) s =
     resume (inflight s ! k) r rnd now (s\<lparr>inflight := remove_nth k (inflight s)\<rparr>)"
  by (simp add: handle_def)

lemma run_to_timer_setup:
  "run to_timer_setup initial =
     initial\<lparr>currentState := TIMER_SETUP, inflight := [AwaitSession ''calm_female'' 15]\<rparr>"
  by code_simp

text \<open>
  Claim C4, as stated, fails in its last part: when the request for the session is
  rejected, the state is the one before the click except for a line on the developer
  console; the message log stays empty, nothing is shown to the user.
\<close>

theorem failed_creation_counterexample:
  "run (to_timer_setup @ [(3000, Settle 0 Rejected 0)]) initial =
     initial\<lparr>currentState := TIMER_SETUP, console := [''Failed to start session:'']\<rparr>
   \<and> messages (run (to_timer_setup @ [(3000, Settle 0 Rejected 0)]) initial) = []"
  by code_simp

text \<open>
  Claim C4, amended. When the session request is rejected while the machine is in
  \<open>TIMER_SETUP\<close>, the request leaves the set of requests in flight and one line is
  logged to the console; every other part of the state is unchanged: the machine stays
  in \<open>TIMER_SETUP\<close>, there is no session, no timer, no socket, no capture, no message.
\<close>

theorem failed_creation_only_logs:
  assumes "currentState s = TIMER_SETUP" and "k < length (inflight s)"
    and "inflight s ! k = AwaitSession voice minutes"
  shows "step now (Settle k Rejected rnd) s =
     s\<lparr>inflight := remove_nth k (inflight s),
       console := console s @ [''Failed to start session:'']\<rparr>"
  using assms
  by (simp add: step_def handle_Settle resume_def startSession_resume_def
        transcript_effect_def)

theorem failed_creation_only_logs_witness:
  "step 3000 (Settle 0 Rejected 0) (run to_timer_setup initial) =
     initial\<lparr>currentState := TIMER_SETUP, console := [''Failed to start session:'']\<rparr>"
proof -
  have a: "currentState (run to_timer_setup initial) = TIMER_SETUP"
    by (simp add: run_to_timer_setup)
  have b: "0 < length (inflight (run to_timer_setup initial))"
    by (simp add: run_to_timer_setup)
  have c: "inflight (run to_timer_setup initial) ! 0 = AwaitSession ''calm_female'' 15"
    by (simp add: run_to_timer_setup)
  from failed_creation_only_logs [OF a b c, of 3000 0] show ?thesis
    unfolding run_to_timer_setup by (simp add: remove_nth_def initial_def)
qed

subsection \<open>Replies to user turns\<close>








subsection \<open>A countdown's expiry and a check-in on the same tick\<close>

lemma run_append: "run (es @ es') s = run es' (run es s)"
  by (induction es arbitrary: s) auto

lemma endSession_frame:
  "messages (endSession now s) = messages s @
     [\<lparr>m_type = ''therapist'', content = closing_text, timestamp = now\<rparr>]"
  "timeouts (endSession now s) = timeouts s @ [(now + 3000, ResetCb)]"
  "isMeditating (endSession now s) = isMeditating s"
  "lastCheckIn (endSession now s) = lastCheckIn s"
  "currentState (endSession now s) = currentState s"
  "remainingTime (endSession now s) = remainingTime s"
  "transcript (endSession now s) = transcript s"
  by (simp_all add: endSession_def Let_def split: option.splits)

lemma render_expiry_after_check_in:
  assumes "remainingTime s \<le> 1"
  shows "render_ticks now \<lparr>appended = ms, updaters = 1, clock = Some c\<rparr> s =
     (endSession now (s\<lparr>messages := messages s @ ms\<rparr>))
       \<lparr>remainingTime := 0, lastCheckIn := Some c\<rparr>"
  using assms by (simp add: render_ticks_def countdown_updater_def Let_def)

lemma render_expiry:
  assumes "remainingTime s \<le> 1"
  shows "render_ticks now \<lparr>appended = [], updaters = 1, clock = None\<rparr> s =
     (endSession now s)\<lparr>remainingTime := 0\<rparr>"
  using assms by (simp add: render_ticks_def countdown_updater_def Let_def)

lemma render_check_in:
  "render_ticks now \<lparr>appended = ms, updaters = 0, clock = Some c\<rparr> s =
     s\<lparr>messages := messages s @ ms, lastCheckIn := Some c\<rparr>"
  by (simp add: render_ticks_def Let_def)

lemma handle_ticks:
  "handle now (Due ks) s = due now ks s"
  "handle now (CountdownTick h) s = due now [Countdown h] s"
  "handle now CheckInTick s = due now [CheckIn] s"
  by (simp_all add: handle_def)

lemma transcript_effect_idle: "transcript s = [] \<Longrightarrow> transcript_effect now s = s"
  by (simp add: transcript_effect_def)

lemma run_to_tie: "run to_tie initial = tie_eve"
  by code_simp

text \<open>
  Claim C2, as stated, fails: with the countdown's last tick and the first due check-in
  both at 603000 during meditation, the countdown's callback running first, the
  check-in message is appended all the same, and before the closing message.
\<close>

theorem tie_counterexample:
  "map content (messages (run (to_tie @ [(603000, Due [Countdown 1, CheckIn])]) initial))
     = [greeting, responses ! 0, transition_text (MEDITATION_SOUNDS ! 1), checkin_text,
        closing_text]"
proof -
  have "map content (messages (run [(603000, Due [Countdown 1, CheckIn])] tie_eve))
     = [greeting, responses ! 0, transition_text (MEDITATION_SOUNDS ! 1), checkin_text,
        closing_text]" by code_simp
  then show ?thesis by (simp only: run_append run_to_tie)
qed

text \<open>
  Claim C2, amended. The code has no precedence between the two timers. When the
  countdown's expiry and a due check-in fall on the same tick and the check-in callback
  has run by the time React evaluates the countdown's updater, the check-in message is
  appended, and the closing message after it: so it is when both callbacks run before
  one render, in either order, and when the check-in callback runs first with a render
  of its own.
\<close>

theorem tie_appends_check_in:
  assumes "h \<in> set (intervals s)" and "remainingTime s \<le> 1" and "transcript s = []"
    and "isMeditating s" and "lastCheckIn s = Some l" and "l \<noteq> 0" and "300000 \<le> now - l"
  shows "messages (step now (Due [Countdown h, CheckIn]) s) =
       messages s @ [\<lparr>m_type = ''therapist'', content = checkin_text, timestamp = now\<rparr>,
                     \<lparr>m_type = ''therapist'', content = closing_text, timestamp = now\<rparr>]
    \<and> step now (Due [CheckIn, Countdown h]) s = step now (Due [Countdown h, CheckIn]) s
    \<and> run [(now, CheckInTick), (now, CountdownTick h)] s =
       step now (Due [Countdown h, CheckIn]) s"
proof -
  let ?cm = "\<lparr>m_type = ''therapist'', content = checkin_text, timestamp = now\<rparr>"
  let ?q = "\<lparr>appended = [?cm], updaters = 1, clock = Some now\<rparr>"
  let ?r = "(endSession now (s\<lparr>messages := messages s @ [?cm]\<rparr>))
       \<lparr>remainingTime := 0, lastCheckIn := Some now\<rparr>"
  have armed: "checkin_armed s" using assms(4-6) by (simp add: checkin_armed_def)
  have q1: "fold (tick_callback s now) [Countdown h, CheckIn] no_updates = ?q"
    using assms armed
    by (simp add: tick_callback_def countdown_callback_def checkin_callback_def
          no_updates_def)
  have q2: "fold (tick_callback s now) [CheckIn, Countdown h] no_updates = ?q"
    using assms armed
    by (simp add: tick_callback_def countdown_callback_def checkin_callback_def
          no_updates_def)
  have r: "render_ticks now ?q s = ?r"
    by (rule render_expiry_after_check_in [OF assms(2)])
  have tr: "transcript ?r = []" by (simp add: endSession_frame assms(3))
  have d1: "step now (Due [Countdown h, CheckIn]) s = ?r"
    unfolding step_def handle_ticks due_def q1 r by (rule transcript_effect_idle [OF tr])
  have d2: "step now (Due [CheckIn, Countdown h]) s = ?r"
    unfolding step_def handle_ticks due_def q2 r by (rule transcript_effect_idle [OF tr])
  let ?c = "s\<lparr>messages := messages s @ [?cm], lastCheckIn := Some now\<rparr>"
  have q3: "fold (tick_callback s now) [CheckIn] no_updates
      = \<lparr>appended = [?cm], updaters = 0, clock = Some now\<rparr>"
    using assms armed by (simp add: tick_callback_def checkin_callback_def no_updates_def)
  have c: "step now CheckInTick s = ?c"
    unfolding step_def handle_ticks due_def q3 render_check_in
    by (rule transcript_effect_idle) (simp add: assms(3))
  have q4: "fold (tick_callback ?c now) [Countdown h] no_updates
      = \<lparr>appended = [], updaters = 1, clock = None\<rparr>"
    using assms(1) by (simp add: tick_callback_def countdown_callback_def no_updates_def)
  have rc: "render_ticks now \<lparr>appended = [], updaters = 1, clock = None\<rparr> ?c =
      (endSession now ?c)\<lparr>remainingTime := 0\<rparr>"
    by (rule render_expiry) (simp add: assms(2))
  have same: "(endSession now ?c)\<lparr>remainingTime := 0\<rparr> = ?r"
    by (simp add: endSession_def Let_def split: option.splits)
  have e: "step now (CountdownTick h) ?c = ?r"
    unfolding step_def handle_ticks due_def q4 rc same
    by (rule transcript_effect_idle [OF tr])
  have d3: "run [(now, CheckInTick), (now, CountdownTick h)] s = ?r"
    by (simp add: c e)
  have m: "messages ?r = messages s @ [?cm,
      \<lparr>m_type = ''therapist'', content = closing_text, timestamp = now\<rparr>]"
    by (simp add: endSession_frame)
  from d1 d2 d3 m show ?thesis by simp
qed

lemma tie_eve_fields:
  "intervals tie_eve = [1]" "remainingTime tie_eve = 1" "transcript tie_eve = []"
  "isMeditating tie_eve" "lastCheckIn tie_eve = Some 303000"
  "map content (messages tie_eve)
     = [greeting, responses ! 0, transition_text (MEDITATION_SOUNDS ! 1)]"
  by (simp_all add: tie_eve_def)

theorem tie_appends_check_in_witness:
  "map content (messages (step 603000 (Due [Countdown 1, CheckIn]) (run to_tie initial)))
     = [greeting, responses ! 0, transition_text (MEDITATION_SOUNDS ! 1), checkin_text,
        closing_text]
   \<and> step 603000 (Due [CheckIn, Countdown 1]) (run to_tie initial)
     = step 603000 (Due [Countdown 1, CheckIn]) (run to_tie initial)
   \<and> run [(603000, CheckInTick), (603000, CountdownTick 1)] (run to_tie initial)
     = step 603000 (Due [Countdown 1, CheckIn]) (run to_tie initial)"
proof -
  let ?pre = "run to_tie initial"
  have a: "1 \<in> set (intervals ?pre)" "remainingTime ?pre \<le> 1" "transcript ?pre = []"
    "isMeditating ?pre" "lastCheckIn ?pre = Some 303000" "(303000::int) \<noteq> 0"
    "(300000::int) \<le> 603000 - 303000"
    by (simp_all add: run_to_tie tie_eve_fields)
  have m: "map content (messages ?pre)
      = [greeting, responses ! 0, transition_text (MEDITATION_SOUNDS ! 1)]"
    by (simp add: run_to_tie tie_eve_fields)
  note t = tie_appends_check_in [OF a]
  have r1: "map content (messages (step 603000 (Due [Countdown 1, CheckIn]) ?pre))
     = [greeting, responses ! 0, transition_text (MEDITATION_SOUNDS ! 1), checkin_text,
        closing_text]"
    by (subst t [THEN conjunct1]) (simp add: m)
  from r1 t show ?thesis by blast
qed

subsection \<open>A failed request for the tracks\<close>

text \<open>
  Claim C7. The code does not do this when the request for the tracks is rejected.
  In a first meditation the machine is in \<open>MEDITATION_ACTIVE\<close> with the sound selected,
  but the message log still ends with the conversation: no transition message, and the
  check-in clock is unset, so that no check-in interval is armed; when the request is
  answered, the clock is set. In a second meditation of the session the clock is still
  the first meditation's, and the element the render shows still plays the first
  meditation's track, under the second sound's name.
\<close>

theorem failed_fetch_skips_transition:
  "currentState (run first_choice_failed initial) = MEDITATION_ACTIVE
   \<and> selectedSound (run first_choice_failed initial) = Some (MEDITATION_SOUNDS ! 0)
   \<and> map content (messages (run first_choice_failed initial)) = [greeting, responses ! 0]
   \<and> lastCheckIn (run first_choice_failed initial) = None
   \<and> \<not> checkin_armed (run first_choice_failed initial)
   \<and> lastCheckIn (run (to_menu @ [(6500, ClickSound 0), (7000, CountdownTick 1),
         (7200, Settle 0 (Fulfilled demo_data) 0)]) initial) = Some 7200
   \<and> currentState (run second_choice_failed initial) = MEDITATION_ACTIVE
   \<and> selectedSound (run second_choice_failed initial) = Some (MEDITATION_SOUNDS ! 1)
   \<and> map content (messages (run second_choice_failed initial))
       = [greeting, responses ! 0, transition_text (MEDITATION_SOUNDS ! 0)]
   \<and> lastCheckIn (run second_choice_failed initial) = Some 7200
   \<and> ambient_audio (run second_choice_failed initial) = Some ''forest.mp3''"
  by code_simp

subsection \<open>Timers that outlive \<open>endSession\<close>\<close>

lemma run_to_check_in_eve: "run to_check_in_eve initial = check_in_eve"
  by code_simp

text \<open>
  Claim C1. The code does not do this. First, \<open>endSession\<close> of 306500 leaves the
  check-in interval armed, and its tick of 307200, inside the settle delay, appends a
  check-in message after the closing message. Second, after two clicks on
  \<open>Start Session\<close> the interval of the first answer is not the one in \<open>timerRef\<close>:
  \<open>endSession\<close> of 6500 leaves it live, and the first answer's socket open; its tick
  of 7000 takes a second off the remaining time; and after the reset of 9500 its tick of 10000 runs \<open>endSession\<close>
  again, which appends a closing message in \<open>VOICE_SELECTION\<close>.
\<close>

theorem end_session_leaves_timers_armed:
  "checkin_armed (run (to_check_in_eve @ [(306500, ClickEnd)]) initial)
   \<and> map content (messages (run (to_check_in_eve @ [(306500, ClickEnd), (307200, CheckInTick)])
         initial))
      = [greeting, responses ! 0, transition_text (MEDITATION_SOUNDS ! 0), closing_text,
         checkin_text]
   \<and> intervals (run to_double_ended initial) = [1]
   \<and> map ws_open (sockets (run to_double_ended initial)) = [True, False]
   \<and> remainingTime (run to_double_ended initial) = 894
   \<and> remainingTime (run (to_double_ended @ [(7000, CountdownTick 1)]) initial) = 893
   \<and> currentState (run (to_double_ended @ ticks_at 1 [7000, 8000, 9000] @
         [(9500, TimeoutFire 0), (10000, CountdownTick 1)]) initial) = VOICE_SELECTION
   \<and> map content (messages (run (to_double_ended @ ticks_at 1 [7000, 8000, 9000] @
         [(9500, TimeoutFire 0), (10000, CountdownTick 1)]) initial)) = [closing_text]"
proof -
  have a: "checkin_armed (run [(306500, ClickEnd)] check_in_eve)" by code_simp
  have b: "map content (messages (run [(306500, ClickEnd), (307200, CheckInTick)] check_in_eve))
      = [greeting, responses ! 0, transition_text (MEDITATION_SOUNDS ! 0), closing_text,
         checkin_text]" by code_simp
  have a': "checkin_armed (run (to_check_in_eve @ [(306500, ClickEnd)]) initial)"
    using a by (simp only: run_append run_to_check_in_eve)
  have b': "map content (messages (run (to_check_in_eve @
        [(306500, ClickEnd), (307200, CheckInTick)]) initial))
      = [greeting, responses ! 0, transition_text (MEDITATION_SOUNDS ! 0), closing_text,
         checkin_text]"
    using b by (simp only: run_append run_to_check_in_eve)
  have c: "intervals (run to_double_ended initial) = [1]" by code_simp
  have c': "map ws_open (sockets (run to_double_ended initial)) = [True, False]"
    by code_simp
  have d: "remainingTime (run to_double_ended initial) = 894" by code_simp
  have e: "remainingTime (run (to_double_ended @ [(7000, CountdownTick 1)]) initial) = 893"
    by code_simp
  have f: "currentState (run (to_double_ended @ ticks_at 1 [7000, 8000, 9000] @
         [(9500, TimeoutFire 0), (10000, CountdownTick 1)]) initial) = VOICE_SELECTION"
    by code_simp
  have g: "map content (messages (run (to_double_ended @ ticks_at 1 [7000, 8000, 9000] @
         [(9500, TimeoutFire 0), (10000, CountdownTick 1)]) initial)) = [closing_text]"
    by code_simp
  from a' b' c c' d e f g show ?thesis by blast
qed

subsection \<open>Two countdowns on one count\<close>

lemma run_to_double_eve: "run to_double_eve initial = double_eve"
  by code_simp

text \<open>
  Claim C5. The code does not do this after two clicks on \<open>Start Session\<close>. Each
  answer sets the remaining seconds to the minutes times 60 (300 for 5 minutes) and
  creates an interval; \<open>timerRef\<close> holds the second handle only. Both intervals take
  seconds off the one count, which is 1 after 150 s. The tick of 153050 brings it to
  zero and runs \<open>endSession\<close>, which clears the second interval. The first interval
  stays live, and each of its ticks after zero runs \<open>endSession\<close> again: three closing
  messages and three resets by 155000.
\<close>

theorem double_start_ends_repeatedly:
  "remainingTime (run (take 7 to_double_eve) initial) = 300
   \<and> intervals (run (take 7 to_double_eve) initial) = [1, 2]
   \<and> timerRef (run (take 7 to_double_eve) initial) = Some 2
   \<and> remainingTime (run to_double_eve initial) = 1
   \<and> map content (messages (run (to_double_eve @ [(153050, CountdownTick 2),
         (154000, CountdownTick 1), (155000, CountdownTick 1)]) initial))
      = [greeting, responses ! 0, responses ! 0, closing_text, closing_text, closing_text]
   \<and> intervals (run (to_double_eve @ [(153050, CountdownTick 2),
         (154000, CountdownTick 1), (155000, CountdownTick 1)]) initial) = [1]
   \<and> timeouts (run (to_double_eve @ [(153050, CountdownTick 2),
         (154000, CountdownTick 1), (155000, CountdownTick 1)]) initial)
      = [(156050, ResetCb), (157000, ResetCb), (158000, ResetCb)]"
proof -
  have a: "remainingTime (run (take 7 to_double_eve) initial) = 300" by code_simp
  have b: "intervals (run (take 7 to_double_eve) initial) = [1, 2]" by code_simp
  have c: "timerRef (run (take 7 to_double_eve) initial) = Some 2" by code_simp
  have d: "remainingTime (run to_double_eve initial) = 1"
    by (simp add: run_to_double_eve double_eve_def)
  have e: "map content (messages (run [(153050, CountdownTick 2),
         (154000, CountdownTick 1), (155000, CountdownTick 1)] double_eve))
      = [greeting, responses ! 0, responses ! 0, closing_text, closing_text, closing_text]"
    by code_simp
  have f: "intervals (run [(153050, CountdownTick 2),
         (154000, CountdownTick 1), (155000, CountdownTick 1)] double_eve) = [1]"
    by code_simp
  have g: "timeouts (run [(153050, CountdownTick 2),
         (154000, CountdownTick 1), (155000, CountdownTick 1)] double_eve)
      = [(156050, ResetCb), (157000, ResetCb), (158000, ResetCb)]"
    by code_simp
  have e': "map content (messages (run (to_double_eve @ [(153050, CountdownTick 2),
         (154000, CountdownTick 1), (155000, CountdownTick 1)]) initial))
      = [greeting, responses ! 0, responses ! 0, closing_text, closing_text, closing_text]"
    using e by (simp only: run_append run_to_double_eve)
  have f': "intervals (run (to_double_eve @ [(153050, CountdownTick 2),
         (154000, CountdownTick 1), (155000, CountdownTick 1)]) initial) = [1]"
    using f by (simp only: run_append run_to_double_eve)
  have g': "timeouts (run (to_double_eve @ [(153050, CountdownTick 2),
         (154000, CountdownTick 1), (155000, CountdownTick 1)]) initial)
      = [(156050, ResetCb), (157000, ResetCb), (158000, ResetCb)]"
    using g by (simp only: run_append run_to_double_eve)
  from a b c d e' f' g' show ?thesis by blast
qed

end
